theory Spec2Isabelle
  imports Main "HOL-Library.Word" "HOL-Library.Monad_Syntax"
begin

section \<open>The Schnorr verifier (src/liblelantus/schnorr_verifier.cpp)\<close>

text \<open>
  The verifier is written against three library types whose code is not part of the
  verified sources: \<open>GroupElement\<close>, \<open>Scalar\<close> and the abstract class
  \<open>ChallengeGenerator\<close> with its subclass \<open>ChallengeGeneratorSha256\<close>. The model
  takes them as type parameters \<open>'g\<close>, \<open>'s\<close> and \<open>'cg\<close>, and the member functions that
  \<open>verify\<close> calls as the fields of a record that is passed to every function. A value
  of \<open>'cg\<close> is a generator object (its dynamic class together with its state), so the
  three generator operations stand for the virtual calls. Equality of group elements
  (\<open>operator==\<close>) is equality of \<open>'g\<close>.
\<close>

type_synonym byte = "8 word"

record ('g, 's, 'cg) library =
  GroupElement_isMember :: "'g \<Rightarrow> bool"
  GroupElement_isInfinity :: "'g \<Rightarrow> bool"
  GroupElement_times :: "'g \<Rightarrow> 's \<Rightarrow> 'g"
  GroupElement_plus :: "'g \<Rightarrow> 'g \<Rightarrow> 'g"
  Scalar_isMember :: "'s \<Rightarrow> bool"
  Scalar_isZero :: "'s \<Rightarrow> bool"
  ChallengeGenerator_add_bytes :: "byte list \<Rightarrow> 'cg \<Rightarrow> 'cg"
  ChallengeGenerator_add_elements :: "'g list \<Rightarrow> 'cg \<Rightarrow> 'cg"
  ChallengeGenerator_get_challenge :: "'cg \<Rightarrow> 's \<times> 'cg"
  ChallengeGeneratorSha256_new :: "'cg"

text \<open>\<open>struct SchnorrProof\<close>: the three members that \<open>verify\<close> reads.\<close>

record ('g, 's) SchnorrProof =
  u :: 'g
  P1 :: 's
  T1 :: 's

text \<open>
  \<open>class SchnorrVerifier\<close>: the members set by the constructor (lines 6 to 8). The
  members \<open>g_\<close> and \<open>h_\<close> are named \<open>this_g\<close> and \<open>this_h\<close>, since a name cannot
  end with an underscore here.
\<close>

record 'g SchnorrVerifier =
  this_g :: 'g
  this_h :: 'g
  withFixes :: bool

definition SchnorrVerifier_new :: "'g \<Rightarrow> 'g \<Rightarrow> bool \<Rightarrow> 'g SchnorrVerifier" where
  "SchnorrVerifier_new g h withFixes' = \<lparr>this_g = g, this_h = h, withFixes = withFixes'\<rparr>"

text \<open>
  Line 24: \<open>std::vector<unsigned char> pre(shts.begin(), shts.end())\<close>, the characters of
  the string as unsigned bytes.
\<close>

definition bytes_of_string :: "string \<Rightarrow> byte list" where
  "bytes_of_string shts = map (\<lambda>ch. of_nat (of_char ch)) shts"

text \<open>
  Lines 17 to 31 of \<open>verify\<close>: the transcript and the challenge. The argument
  \<open>challengeGenerator\<close> is the object owned by the caller's \<open>unique_ptr\<close>; the result
  is the scalar \<open>c\<close> written by \<open>get_challenge\<close> and the object the handle owns after
  line 31. \<open>challengeGenerator.reset(new ChallengeGeneratorSha256())\<close> makes the handle
  own a newly constructed object, whatever it owned before. The handle is taken to own
  an object when \<open>verify\<close> is called: with \<open>withFixes\<close> line 26 dereferences it at once.
\<close>

definition verify_challenge ::
  "('g, 's, 'cg) library \<Rightarrow> 'g SchnorrVerifier \<Rightarrow> 'g \<Rightarrow> 'g \<Rightarrow> 'g \<Rightarrow>
     ('g, 's) SchnorrProof \<Rightarrow> 'cg \<Rightarrow> 's \<times> 'cg" where
  "verify_challenge L this y a b prf challengeGenerator =
     (let group_elements = [u prf];
          shts = ('''' :: string);
          (group_elements, challengeGenerator) =
            (if withFixes this
             then (let shts = ''SCHNORR_PROOF'';
                       pre = bytes_of_string shts
                   in ([u prf, y, a, b],
                       ChallengeGenerator_add_bytes L pre challengeGenerator))
             else (group_elements, ChallengeGeneratorSha256_new L));
          challengeGenerator = ChallengeGenerator_add_elements L group_elements challengeGenerator
      in ChallengeGenerator_get_challenge L challengeGenerator)"

text \<open>
  \<open>SchnorrVerifier::verify\<close> (lines 10 to 46). The result is the returned boolean and
  the generator object that the caller's handle owns when the call returns. Lines 33 to
  45 follow the code: the test of lines 36 and 37 returns false, then
  \<open>right = y * c + g_ * P1 + h_ * T1\<close> (left-associated sum) is compared with \<open>u\<close>.
\<close>

definition verify ::
  "('g, 's, 'cg) library \<Rightarrow> 'g SchnorrVerifier \<Rightarrow> 'g \<Rightarrow> 'g \<Rightarrow> 'g \<Rightarrow>
     ('g, 's) SchnorrProof \<Rightarrow> 'cg \<Rightarrow> bool \<times> 'cg" where
  "verify L this y a b prf challengeGenerator =
     (let (c, challengeGenerator) = verify_challenge L this y a b prf challengeGenerator
      in if \<not> (GroupElement_isMember L (u prf) \<and> GroupElement_isMember L y \<and>
                Scalar_isMember L (P1 prf) \<and> Scalar_isMember L (T1 prf)) \<or>
            GroupElement_isInfinity L (u prf) \<or> GroupElement_isInfinity L y \<or>
            Scalar_isZero L (P1 prf) \<or> Scalar_isZero L (T1 prf)
         then (False, challengeGenerator)
         else (let right = GroupElement_plus L
                             (GroupElement_plus L (GroupElement_times L y c)
                                                  (GroupElement_times L (this_g this) (P1 prf)))
                             (GroupElement_times L (this_h this) (T1 prf))
               in if u prf = right then (True, challengeGenerator)
                  else (False, challengeGenerator)))"

text \<open>
  A small instance of the library, used to run the verifier on concrete inputs: group
  elements and scalars are integers, the group is the integers modulo 11 under
  addition, a value outside \<open>0..10\<close> is a malformed element, and a generator object is
  the list of integers it has absorbed. Its challenge is a running hash of that list,
  and drawing a challenge absorbs it.
\<close>

definition small_hash :: "int list \<Rightarrow> int" where
  "small_hash t = foldl (\<lambda>acc x. (acc * 7 + x) mod 11) 1 t"

definition small_library :: "(int, int, int list) library" where
  "small_library =
     \<lparr>GroupElement_isMember = (\<lambda>x. 0 \<le> x \<and> x < 11),
      GroupElement_isInfinity = (\<lambda>x. x = 0),
      GroupElement_times = (\<lambda>x s. (x * s) mod 11),
      GroupElement_plus = (\<lambda>x z. (x + z) mod 11),
      Scalar_isMember = (\<lambda>s. 0 \<le> s \<and> s < 11),
      Scalar_isZero = (\<lambda>s. s = 0),
      ChallengeGenerator_add_bytes = (\<lambda>bs t. t @ map uint bs),
      ChallengeGenerator_add_elements = (\<lambda>gs t. t @ int (length gs) # gs),
      ChallengeGenerator_get_challenge = (\<lambda>t. (small_hash t, t @ [small_hash t])),
      ChallengeGeneratorSha256_new = []\<rparr>"

subsection \<open>The verifier with generator calls that can throw\<close>










section \<open>The Spark state and its mempool overlay (src/spark/state.h)\<close>

text \<open>
  The header declares the data members of \<open>CSparkMempoolState\<close> and \<open>CSparkState\<close> and
  the signatures of their member functions; the function bodies are not part of the
  verified sources. The records follow the header. \<open>GroupElement\<close>, \<open>spark::Coin\<close> and
  \<open>CBlockIndex*\<close> are the type parameters \<open>'g\<close>, \<open>'coin\<close> and \<open>'blk\<close>; an \<open>int\<close> that is
  only stored and compared is an integer, \<open>size_t\<close> a natural number, and an
  \<open>unordered_map\<close> a partial function.
\<close>

type_synonym uint256 = "256 word"

record ('coin, 'g) CSparkMempoolState =
  mempoolMints :: "'coin set"
  mempoolLTags :: "'g \<rightharpoonup> uint256"

record 'blk SparkCoinGroupInfo =
  firstBlock :: "'blk option"
  lastBlock :: "'blk option"
  nCoins :: int

text \<open>
  \<open>CMintedCoinInfo\<close> is the pair \<open>(coinGroupId, nHeight)\<close>. The last field is not a member
  in the header. Modelled from the spec: \<open>CSparkState\<close> owns a \<open>CSparkMempoolState\<close>
  instance logically (composition, not a separate global).
\<close>

record ('coin, 'g, 'blk) CSparkState =
  maxCoinInGroup :: nat
  startGroupSize :: nat
  latestCoinId :: int
  coinGroups :: "int \<rightharpoonup> 'blk SparkCoinGroupInfo"
  mintedCoins :: "'coin \<rightharpoonup> int \<times> int"
  usedLTags :: "'g \<rightharpoonup> int"
  extendedMintMetaInfo :: "int \<rightharpoonup> nat"
  mintMetaInfo :: "int \<rightharpoonup> nat"
  spendMetaInfo :: "int \<rightharpoonup> nat"
  mempool :: "('coin, 'g) CSparkMempoolState"

text \<open>
  Modelled from the spec: the body of \<open>CSparkMempoolState::HasLTag\<close> is missing. The spec
  gives \<open>HasLTag(tag) -> bool\<close> as the lookup in the mempool's linking-tag map.
\<close>

definition HasLTag :: "('coin, 'g) CSparkMempoolState \<Rightarrow> 'g \<Rightarrow> bool" where
  "HasLTag mp lTag = (mempoolLTags mp lTag \<noteq> None)"

text \<open>
  Modelled from the spec: the body of \<open>CSparkMempoolState::AddSpendToMempool\<close> is
  missing. The spec: it fails (false, no mutation) if the tag is already present, the
  mempool-level double-spend guard; it succeeds and inserts otherwise.
\<close>

definition Mempool_AddSpendToMempool ::
  "('coin, 'g) CSparkMempoolState \<Rightarrow> 'g \<Rightarrow> uint256 \<Rightarrow> bool \<times> ('coin, 'g) CSparkMempoolState" where
  "Mempool_AddSpendToMempool mp lTag txHash =
     (if HasLTag mp lTag then (False, mp)
      else (True, mp\<lparr>mempoolLTags := (mempoolLTags mp)(lTag \<mapsto> txHash)\<rparr>))"

text \<open>
  Modelled from the spec: the body of \<open>CSparkMempoolState::RemoveSpendFromMempool\<close> is
  missing. The spec: idempotent removal.
\<close>

definition Mempool_RemoveSpendFromMempool ::
  "('coin, 'g) CSparkMempoolState \<Rightarrow> 'g \<Rightarrow> ('coin, 'g) CSparkMempoolState" where
  "Mempool_RemoveSpendFromMempool mp lTag = mp\<lparr>mempoolLTags := (mempoolLTags mp)(lTag := None)\<rparr>"

text \<open>
  Modelled from the spec: the body of \<open>CSparkState::IsUsedLTag\<close> is missing. The header's
  comment: query if the coin linking tag was previously used.
\<close>

definition IsUsedLTag :: "('coin, 'g, 'blk) CSparkState \<Rightarrow> 'g \<Rightarrow> bool" where
  "IsUsedLTag st lTag = (usedLTags st lTag \<noteq> None)"

text \<open>
  Modelled from the spec: the body of \<open>CSparkState::CanAddSpendToMempool\<close> is missing.
  The spec: combined check, false if the tag exists in committed \<open>usedLTags\<close> or in the
  mempool linking-tag map.
\<close>

definition CanAddSpendToMempool :: "('coin, 'g, 'blk) CSparkState \<Rightarrow> 'g \<Rightarrow> bool" where
  "CanAddSpendToMempool st lTag = (\<not> IsUsedLTag st lTag \<and> \<not> HasLTag (mempool st) lTag)"

text \<open>
  \<open>std::unordered_map::insert\<close>, the insertion of the container that the header gives
  \<open>usedLTags\<close>: an entry is inserted only if the map has none with that key.
\<close>

definition unordered_map_insert :: "('key \<rightharpoonup> 'entry) \<Rightarrow> 'key \<Rightarrow> 'entry \<Rightarrow> ('key \<rightharpoonup> 'entry)" where
  "unordered_map_insert m key entry =
     (case m key of None \<Rightarrow> m(key \<mapsto> entry) | Some present \<Rightarrow> m)"

text \<open>
  Modelled from the spec: the bodies of \<open>CSparkState::AddSpend\<close> and \<open>RemoveSpend\<close> are
  missing; both return \<open>void\<close> in the header. The spec: symmetric committed-layer insert
  and erase for linking tags, and, for a tag in \<open>usedLTags\<close>, promotion removes the
  mempool entry atomically with the committed insert. So \<open>AddSpend\<close> inserts the tag
  into \<open>usedLTags\<close> and removes it from the mempool map. The spec does not say what the
  insert does with a tag that is already a key of \<open>usedLTags\<close>: in \<open>AddSpend_with\<close> the
  insertion into the map is the parameter \<open>ins\<close>, and \<open>AddSpend\<close> is the body with the
  container's own \<open>insert\<close>.
\<close>

definition AddSpend_with ::
  "(('g \<rightharpoonup> int) \<Rightarrow> 'g \<Rightarrow> int \<Rightarrow> ('g \<rightharpoonup> int)) \<Rightarrow>
     ('coin, 'g, 'blk) CSparkState \<Rightarrow> 'g \<Rightarrow> int \<Rightarrow> ('coin, 'g, 'blk) CSparkState" where
  "AddSpend_with ins st lTag coinGroupId =
     st\<lparr>usedLTags := ins (usedLTags st) lTag coinGroupId,
        mempool := Mempool_RemoveSpendFromMempool (mempool st) lTag\<rparr>"

definition AddSpend ::
  "('coin, 'g, 'blk) CSparkState \<Rightarrow> 'g \<Rightarrow> int \<Rightarrow> ('coin, 'g, 'blk) CSparkState" where
  "AddSpend st lTag coinGroupId = AddSpend_with unordered_map_insert st lTag coinGroupId"


text \<open>
  Modelled from the spec: the body of \<open>CSparkState::AddSpendToMempool\<close> is missing. The
  spec: all-or-nothing, every tag in the list must pass \<open>CanAddSpendToMempool\<close>; if any
  fails, no tag is inserted and the call returns false. Otherwise each tag goes into the
  mempool through the mempool-level \<open>AddSpendToMempool\<close>, in list order.
\<close>

definition AddSpendToMempool ::
  "('coin, 'g, 'blk) CSparkState \<Rightarrow> 'g list \<Rightarrow> uint256 \<Rightarrow> bool \<times> ('coin, 'g, 'blk) CSparkState" where
  "AddSpendToMempool st lTags txHash =
     (if list_all (CanAddSpendToMempool st) lTags
      then (True,
            st\<lparr>mempool :=
                 foldl (\<lambda>mp lTag. snd (Mempool_AddSpendToMempool mp lTag txHash))
                   (mempool st) lTags\<rparr>)
      else (False, st))"


text \<open>
  Modelled from the spec: the constructor and \<open>Reset\<close> are missing. The spec: \<open>Reset\<close>
  clears all committed state and delegates a mempool reset; the constructor takes the
  two group limits.
\<close>

definition CSparkState_new :: "nat \<Rightarrow> nat \<Rightarrow> ('coin, 'g, 'blk) CSparkState" where
  "CSparkState_new maxCoinInGroup' startGroupSize' =
     \<lparr>maxCoinInGroup = maxCoinInGroup', startGroupSize = startGroupSize',
      latestCoinId = 0, coinGroups = Map.empty, mintedCoins = Map.empty,
      usedLTags = Map.empty, extendedMintMetaInfo = Map.empty, mintMetaInfo = Map.empty,
      spendMetaInfo = Map.empty,
      mempool = \<lparr>mempoolMints = {}, mempoolLTags = Map.empty\<rparr>\<rparr>"







section \<open>Mint metadata and its serialization (src/spark/primitives.h)\<close>

text \<open>
  \<open>struct CSparkMintMeta\<close>, member by member. \<open>int\<close> is a 32-bit word, \<open>uint64_t\<close> a 64-bit
  word, \<open>uint256\<close> a 256-bit word, \<open>std::vector<unsigned char>\<close> a list of bytes and
  \<open>std::string\<close> a string; \<open>Scalar\<close> is the type parameter \<open>'sc\<close>. The member \<open>nonceHash\<close> is
  the \<open>boost::optional\<close> cache, which \<open>SerializationOp\<close> does not mention.
\<close>

record 'sc CSparkMintMeta =
  nHeight :: "32 word"
  nId :: "32 word"
  isUsed :: bool
  txid :: uint256
  i :: "64 word"
  d :: "byte list"
  v :: "64 word"
  k :: 'sc
  memo :: string
  serial_context :: "byte list"
  nonceHash :: "uint256 option"

text \<open>
  The macros \<open>ADD_SERIALIZE_METHODS\<close> and \<open>READWRITE\<close> and the functions \<open>Serialize\<close> and
  \<open>Unserialize\<close> of the member types come from \<open>serialize.h\<close>, which is not part of the
  verified sources. The per-type functions are parameters: for each member type one
  function that gives the bytes of a value and one that reads a value from the front of
  a byte stream, returning it with the rest of the stream, or nothing when the stream
  does not hold one (the exception of the stream).
\<close>

record 'sc serializers =
  Serialize_int :: "32 word \<Rightarrow> byte list"
  Unserialize_int :: "byte list \<Rightarrow> (32 word \<times> byte list) option"
  Serialize_bool :: "bool \<Rightarrow> byte list"
  Unserialize_bool :: "byte list \<Rightarrow> (bool \<times> byte list) option"
  Serialize_uint256 :: "uint256 \<Rightarrow> byte list"
  Unserialize_uint256 :: "byte list \<Rightarrow> (uint256 \<times> byte list) option"
  Serialize_uint64 :: "64 word \<Rightarrow> byte list"
  Unserialize_uint64 :: "byte list \<Rightarrow> (64 word \<times> byte list) option"
  Serialize_vector :: "byte list \<Rightarrow> byte list"
  Unserialize_vector :: "byte list \<Rightarrow> (byte list \<times> byte list) option"
  Serialize_Scalar :: "'sc \<Rightarrow> byte list"
  Unserialize_Scalar :: "byte list \<Rightarrow> ('sc \<times> byte list) option"
  Serialize_string :: "string \<Rightarrow> byte list"
  Unserialize_string :: "byte list \<Rightarrow> (string \<times> byte list) option"

text \<open>
  The template parameter \<open>Operation\<close> of \<open>SerializationOp\<close>: the one member function
  serves both directions.
\<close>

datatype Operation = CSerActionSerialize | CSerActionUnserialize

text \<open>
  \<open>READWRITE(member)\<close> on a stream \<open>s\<close> and the object: when serializing, the bytes of the
  member are appended to the stream and the object is unchanged; when unserializing, a
  value is read from the front of the stream and stored in the member. The member is
  given by its selector and its update.
\<close>

definition READWRITE ::
  "('a \<Rightarrow> byte list) \<Rightarrow> (byte list \<Rightarrow> ('a \<times> byte list) option) \<Rightarrow>
     ('obj \<Rightarrow> 'a) \<Rightarrow> ('a \<Rightarrow> 'obj \<Rightarrow> 'obj) \<Rightarrow>
     Operation \<Rightarrow> byte list \<times> 'obj \<Rightarrow> (byte list \<times> 'obj) option" where
  "READWRITE ser unser member set_member ser_action st =
     (case ser_action of
        CSerActionSerialize \<Rightarrow> Some (fst st @ ser (member (snd st)), snd st)
      | CSerActionUnserialize \<Rightarrow>
          (case unser (fst st) of
             None \<Rightarrow> None
           | Some (x, s') \<Rightarrow> Some (s', set_member x (snd st))))"

text \<open>\<open>CSparkMintMeta::SerializationOp\<close> (lines 26 to 39): ten \<open>READWRITE\<close>s in a row.\<close>

definition SerializationOp ::
  "'sc serializers \<Rightarrow> Operation \<Rightarrow> byte list \<times> 'sc CSparkMintMeta \<Rightarrow>
     (byte list \<times> 'sc CSparkMintMeta) option" where
  "SerializationOp C ser_action st0 =
     do {
       st \<leftarrow> READWRITE (Serialize_int C) (Unserialize_int C)
              nHeight (\<lambda>x obj. obj\<lparr>nHeight := x\<rparr>) ser_action st0;
       st \<leftarrow> READWRITE (Serialize_int C) (Unserialize_int C)
              nId (\<lambda>x obj. obj\<lparr>nId := x\<rparr>) ser_action st;
       st \<leftarrow> READWRITE (Serialize_bool C) (Unserialize_bool C)
              isUsed (\<lambda>x obj. obj\<lparr>isUsed := x\<rparr>) ser_action st;
       st \<leftarrow> READWRITE (Serialize_uint256 C) (Unserialize_uint256 C)
              txid (\<lambda>x obj. obj\<lparr>txid := x\<rparr>) ser_action st;
       st \<leftarrow> READWRITE (Serialize_uint64 C) (Unserialize_uint64 C)
              i (\<lambda>x obj. obj\<lparr>i := x\<rparr>) ser_action st;
       st \<leftarrow> READWRITE (Serialize_vector C) (Unserialize_vector C)
              d (\<lambda>x obj. obj\<lparr>d := x\<rparr>) ser_action st;
       st \<leftarrow> READWRITE (Serialize_uint64 C) (Unserialize_uint64 C)
              v (\<lambda>x obj. obj\<lparr>v := x\<rparr>) ser_action st;
       st \<leftarrow> READWRITE (Serialize_Scalar C) (Unserialize_Scalar C)
              k (\<lambda>x obj. obj\<lparr>k := x\<rparr>) ser_action st;
       st \<leftarrow> READWRITE (Serialize_string C) (Unserialize_string C)
              memo (\<lambda>x obj. obj\<lparr>memo := x\<rparr>) ser_action st;
       READWRITE (Serialize_vector C) (Unserialize_vector C)
         serial_context (\<lambda>x obj. obj\<lparr>serial_context := x\<rparr>) ser_action st
     }"

text \<open>
  A value is read back when unserializing its bytes, whatever follows them in the
  stream, gives the value and leaves what follows.
\<close>

definition reads_back ::
  "('a \<Rightarrow> byte list) \<Rightarrow> (byte list \<Rightarrow> ('a \<times> byte list) option) \<Rightarrow> 'a \<Rightarrow> bool" where
  "reads_back ser unser x = (\<forall>rest. unser (ser x @ rest) = Some (x, rest))"

text \<open>
  Every serialized member of an object is read back by the functions of its type.
\<close>

definition members_read_back :: "'sc serializers \<Rightarrow> 'sc CSparkMintMeta \<Rightarrow> bool" where
  "members_read_back C m =
     (reads_back (Serialize_int C) (Unserialize_int C) (nHeight m) \<and>
      reads_back (Serialize_int C) (Unserialize_int C) (nId m) \<and>
      reads_back (Serialize_bool C) (Unserialize_bool C) (isUsed m) \<and>
      reads_back (Serialize_uint256 C) (Unserialize_uint256 C) (txid m) \<and>
      reads_back (Serialize_uint64 C) (Unserialize_uint64 C) (i m) \<and>
      reads_back (Serialize_vector C) (Unserialize_vector C) (d m) \<and>
      reads_back (Serialize_uint64 C) (Unserialize_uint64 C) (v m) \<and>
      reads_back (Serialize_Scalar C) (Unserialize_Scalar C) (k m) \<and>
      reads_back (Serialize_string C) (Unserialize_string C) (memo m) \<and>
      reads_back (Serialize_vector C) (Unserialize_vector C) (serial_context m))"

text \<open>
  A small instance of the per-type functions, used to run \<open>SerializationOp\<close> on a
  concrete object: an integer of \<open>n\<close> bytes is written little-endian, a boolean as one
  byte, a vector or string as its length in four bytes followed by its bytes, and a
  scalar is a 256-bit word written as 32 bytes.
\<close>

fun le_bytes :: "nat \<Rightarrow> nat \<Rightarrow> byte list" where
  "le_bytes 0 x = []"
| "le_bytes (Suc n) x = of_nat (x mod 256) # le_bytes n (x div 256)"

fun le_value :: "byte list \<Rightarrow> nat" where
  "le_value [] = 0"
| "le_value (b # bs) = unat b + 256 * le_value bs"

definition put_word :: "nat \<Rightarrow> 'a::len word \<Rightarrow> byte list" where
  "put_word n w = le_bytes n (unat w)"

definition get_word :: "nat \<Rightarrow> byte list \<Rightarrow> ('a::len word \<times> byte list) option" where
  "get_word n s =
     (if length s < n then None else Some (of_nat (le_value (take n s)), drop n s))"

definition put_bool :: "bool \<Rightarrow> byte list" where
  "put_bool flag = [if flag then 1 else 0]"

definition get_bool :: "byte list \<Rightarrow> (bool \<times> byte list) option" where
  "get_bool s = (case s of [] \<Rightarrow> None | x # s' \<Rightarrow> Some (x \<noteq> 0, s'))"

definition put_vector :: "byte list \<Rightarrow> byte list" where
  "put_vector xs = put_word 4 (of_nat (length xs) :: 32 word) @ xs"

definition get_vector :: "byte list \<Rightarrow> (byte list \<times> byte list) option" where
  "get_vector s =
     (case get_word 4 s of
        None \<Rightarrow> None
      | Some (n :: 32 word, s') \<Rightarrow>
          if length s' < unat n then None else Some (take (unat n) s', drop (unat n) s'))"

definition put_string :: "string \<Rightarrow> byte list" where
  "put_string str = put_vector (bytes_of_string str)"

definition get_string :: "byte list \<Rightarrow> (string \<times> byte list) option" where
  "get_string s =
     (case get_vector s of
        None \<Rightarrow> None
      | Some (xs, s') \<Rightarrow> Some (map (\<lambda>x. char_of (unat x)) xs, s'))"

definition small_serializers :: "256 word serializers" where
  "small_serializers =
     \<lparr>Serialize_int = put_word 4, Unserialize_int = get_word 4,
      Serialize_bool = put_bool, Unserialize_bool = get_bool,
      Serialize_uint256 = put_word 32, Unserialize_uint256 = get_word 32,
      Serialize_uint64 = put_word 8, Unserialize_uint64 = get_word 8,
      Serialize_vector = put_vector, Unserialize_vector = get_vector,
      Serialize_Scalar = put_word 32, Unserialize_Scalar = get_word 32,
      Serialize_string = put_string, Unserialize_string = get_string\<rparr>"

section \<open>Properties of the Schnorr verifier\<close>

subsection \<open>Unfolding the verifier\<close>

lemma verify_challenge_unfold:
  "verify_challenge L this y a b prf cg =
     ChallengeGenerator_get_challenge L
       (if withFixes this
        then ChallengeGenerator_add_elements L [u prf, y, a, b]
               (ChallengeGenerator_add_bytes L (bytes_of_string ''SCHNORR_PROOF'') cg)
        else ChallengeGenerator_add_elements L [u prf] (ChallengeGeneratorSha256_new L))"
  by (simp add: verify_challenge_def Let_def)

lemma verify_unfold:
  "verify L this y a b prf cg =
     (GroupElement_isMember L (u prf) \<and> GroupElement_isMember L y \<and>
      Scalar_isMember L (P1 prf) \<and> Scalar_isMember L (T1 prf) \<and>
      \<not> GroupElement_isInfinity L (u prf) \<and> \<not> GroupElement_isInfinity L y \<and>
      \<not> Scalar_isZero L (P1 prf) \<and> \<not> Scalar_isZero L (T1 prf) \<and>
      u prf = GroupElement_plus L
                (GroupElement_plus L
                   (GroupElement_times L y (fst (verify_challenge L this y a b prf cg)))
                   (GroupElement_times L (this_g this) (P1 prf)))
                (GroupElement_times L (this_h this) (T1 prf)),
      snd (verify_challenge L this y a b prf cg))"
  by (auto simp: verify_def Let_def split: prod.splits)

lemma label_bytes:
  "bytes_of_string ''SCHNORR_PROOF'' = [83, 67, 72, 78, 79, 82, 82, 95, 80, 82, 79, 79, 70]"
  by (simp add: bytes_of_string_def)

subsection \<open>Running the verifier on the small library\<close>

lemma small_simps:
  "GroupElement_isMember small_library x = (0 \<le> x \<and> x < 11)"
  "GroupElement_isInfinity small_library x = (x = 0)"
  "GroupElement_times small_library x s = (x * s) mod 11"
  "GroupElement_plus small_library x z = (x + z) mod 11"
  "Scalar_isMember small_library s = (0 \<le> s \<and> s < 11)"
  "Scalar_isZero small_library s = (s = 0)"
  "ChallengeGenerator_add_bytes small_library bs t = t @ map uint bs"
  "ChallengeGenerator_add_elements small_library gs t = t @ int (length gs) # gs"
  "ChallengeGenerator_get_challenge small_library t = (small_hash t, t @ [small_hash t])"
  "ChallengeGeneratorSha256_new small_library = []"
  by (simp_all add: small_library_def)

lemma small_hash_values:
  "small_hash [1, 5] = 6"
  "small_hash [83, 67, 72, 78, 79, 82, 82, 95, 80, 82, 79, 79, 70, 4, 5, 3, 4, 5] = 8"
  "small_hash [9, 9, 83, 67, 72, 78, 79, 82, 82, 95, 80, 82, 79, 79, 70, 4, 5, 3, 4, 5] = 10"
  "small_hash [83, 67, 72, 78, 79, 82, 82, 95, 80, 82, 79, 79, 70, 4, 5, 3, 200, 5] = 5"
  by (simp_all add: small_hash_def)

lemma small_legacy:
  "\<not> withFixes this \<Longrightarrow>
   verify_challenge small_library this y a b prf cg =
     (small_hash [1, u prf], [1, u prf, small_hash [1, u prf]])"
  by (simp add: verify_challenge_unfold small_simps)

lemma small_fixed:
  "withFixes this \<Longrightarrow>
   verify_challenge small_library this y a b prf cg =
     (small_hash (cg @ [83, 67, 72, 78, 79, 82, 82, 95, 80, 82, 79, 79, 70, 4, u prf, y, a, b]),
      cg @ [83, 67, 72, 78, 79, 82, 82, 95, 80, 82, 79, 79, 70, 4, u prf, y, a, b,
        small_hash (cg @ [83, 67, 72, 78, 79, 82, 82, 95, 80, 82, 79, 79, 70, 4, u prf, y, a, b])])"
  by (simp add: verify_challenge_unfold small_simps label_bytes)

lemmas small_run =
  verify_unfold small_legacy small_fixed small_hash_values small_simps SchnorrVerifier_new_def

subsection \<open>The validity gate\<close>

text \<open>
  C1, as amended. \<open>verify\<close> returns false unless \<open>u\<close> and \<open>y\<close> are well-formed group
  members, \<open>P1\<close> and \<open>T1\<close> are well-formed field members, \<open>u\<close> and \<open>y\<close> are not the
  identity and \<open>P1\<close> and \<open>T1\<close> are not zero: a failing test on any of these four forces a
  false return. The elements \<open>a\<close> and \<open>b\<close> are not among the tested ones.
\<close>

theorem verify_false_unless_gate:
  assumes "\<not> (GroupElement_isMember L (u prf) \<and> GroupElement_isMember L y \<and>
              Scalar_isMember L (P1 prf) \<and> Scalar_isMember L (T1 prf) \<and>
              \<not> GroupElement_isInfinity L (u prf) \<and> \<not> GroupElement_isInfinity L y \<and>
              \<not> Scalar_isZero L (P1 prf) \<and> \<not> Scalar_isZero L (T1 prf))"
  shows "fst (verify L this y a b prf cg) = False"
  using assms unfolding verify_unfold by auto

text \<open>
  The witness runs the small library on a statement whose \<open>y\<close> is malformed (200 is not
  in \<open>0..10\<close>), in both modes.
\<close>

theorem verify_false_unless_gate_witness:
  "\<not> GroupElement_isMember small_library 200 \<and>
   fst (verify small_library (SchnorrVerifier_new 1 2 False) 200 4 5
          \<lparr>u = 5, P1 = 1, T1 = 4\<rparr> []) = False \<and>
   fst (verify small_library (SchnorrVerifier_new 1 2 True) 200 4 5
          \<lparr>u = 5, P1 = 1, T1 = 4\<rparr> []) = False"
proof -
  have m: "\<not> GroupElement_isMember small_library 200"
    by (simp add: small_simps)
  show ?thesis
    using m
      verify_false_unless_gate [of small_library "\<lparr>u = 5, P1 = 1, T1 = 4\<rparr>" 200
        "SchnorrVerifier_new 1 2 False" 4 5 "[]"]
      verify_false_unless_gate [of small_library "\<lparr>u = 5, P1 = 1, T1 = 4\<rparr>" 200
        "SchnorrVerifier_new 1 2 True" 4 5 "[]"]
    by simp
qed

text \<open>
  C1 as stated fails: the membership of \<open>a\<close> and of \<open>b\<close> is never tested. On the small
  library the verifier accepts a proof for a statement whose \<open>a\<close> is malformed (fixed
  mode, where \<open>a\<close> enters the transcript) and one whose \<open>b\<close> is malformed (legacy mode).
\<close>

theorem verify_accepts_malformed_a_b:
  "\<not> GroupElement_isMember small_library 200 \<and>
   fst (verify small_library (SchnorrVerifier_new 1 2 True) 3 200 5
          \<lparr>u = 5, P1 = 2, T1 = 5\<rparr> []) = True \<and>
   fst (verify small_library (SchnorrVerifier_new 1 2 False) 3 4 200
          \<lparr>u = 5, P1 = 1, T1 = 4\<rparr> []) = True"
  by (simp add: small_run)

subsection \<open>The acceptance test\<close>

text \<open>
  C2. When the inputs pass the validity gate, \<open>verify\<close> returns true if and only if
  \<open>u = y * c + g * P1 + h * T1\<close>, where \<open>g\<close> and \<open>h\<close> are the generators stored by the
  constructor and \<open>c\<close> is the challenge drawn from the transcript of the verifier's mode:
  label and \<open>{u, y, a, b}\<close> on the caller's generator with \<open>withFixes\<close>, \<open>{u}\<close> on a new
  default generator without.
\<close>

theorem verify_true_iff_schnorr_equation:
  assumes "GroupElement_isMember L (u prf)" and "GroupElement_isMember L y"
    and "Scalar_isMember L (P1 prf)" and "Scalar_isMember L (T1 prf)"
    and "\<not> GroupElement_isInfinity L (u prf)" and "\<not> GroupElement_isInfinity L y"
    and "\<not> Scalar_isZero L (P1 prf)" and "\<not> Scalar_isZero L (T1 prf)"
    and "this = SchnorrVerifier_new g h with_fixes"
    and "c = fst (ChallengeGenerator_get_challenge L
                   (if with_fixes
                    then ChallengeGenerator_add_elements L [u prf, y, a, b]
                           (ChallengeGenerator_add_bytes L
                              (bytes_of_string ''SCHNORR_PROOF'') cg)
                    else ChallengeGenerator_add_elements L [u prf]
                           (ChallengeGeneratorSha256_new L)))"
  shows "fst (verify L this y a b prf cg) =
           (u prf = GroupElement_plus L
                      (GroupElement_plus L (GroupElement_times L y c)
                                           (GroupElement_times L g (P1 prf)))
                      (GroupElement_times L h (T1 prf)))"
  using assms
  by (simp add: verify_unfold verify_challenge_unfold SchnorrVerifier_new_def)

text \<open>
  The witness: on the small library, in fixed mode with generators 1 and 2, the statement
  \<open>y = 3\<close>, \<open>a = 4\<close>, \<open>b = 5\<close> has challenge 8, and the proof \<open>(5, 1, 1)\<close> is accepted
  because \<open>3 * 8 + 1 * 1 + 2 * 1 = 27\<close> is 5 modulo 11; the proof \<open>(5, 1, 4)\<close> passes the
  gate as well and is rejected.
\<close>

theorem verify_true_iff_schnorr_equation_witness:
  "fst (verify small_library (SchnorrVerifier_new 1 2 True) 3 4 5
          \<lparr>u = 5, P1 = 1, T1 = 1\<rparr> []) = ((5::int) = (3 * 8 + 1 * 1 + 2 * 1) mod 11) \<and>
   fst (verify small_library (SchnorrVerifier_new 1 2 True) 3 4 5
          \<lparr>u = 5, P1 = 1, T1 = 4\<rparr> []) = ((5::int) = (3 * 8 + 1 * 1 + 2 * 4) mod 11)"
proof -
  have c: "(8::int) = fst (ChallengeGenerator_get_challenge small_library
                   (if True
                    then ChallengeGenerator_add_elements small_library [5, 3, 4, 5]
                           (ChallengeGenerator_add_bytes small_library
                              (bytes_of_string ''SCHNORR_PROOF'') [])
                    else ChallengeGenerator_add_elements small_library [5]
                           (ChallengeGeneratorSha256_new small_library)))"
    by (simp add: small_simps label_bytes small_hash_values)
  have "fst (verify small_library (SchnorrVerifier_new 1 2 True) 3 4 5
          \<lparr>u = 5, P1 = 1, T1 = 1\<rparr> []) = ((5::int) = (3 * 8 + 1 * 1 + 2 * 1) mod 11)"
    using c verify_true_iff_schnorr_equation [of small_library "\<lparr>u = 5, P1 = 1, T1 = 1\<rparr>" 3
        "SchnorrVerifier_new 1 2 True" 1 2 True 8 4 5 "[]"]
    by (simp add: small_simps)
  moreover
  have "fst (verify small_library (SchnorrVerifier_new 1 2 True) 3 4 5
          \<lparr>u = 5, P1 = 1, T1 = 4\<rparr> []) = ((5::int) = (3 * 8 + 1 * 1 + 2 * 4) mod 11)"
    using c verify_true_iff_schnorr_equation [of small_library "\<lparr>u = 5, P1 = 1, T1 = 4\<rparr>" 3
        "SchnorrVerifier_new 1 2 True" 1 2 True 8 4 5 "[]"]
    by (simp add: small_simps)
  ultimately show ?thesis by simp
qed

subsection \<open>The two transcripts\<close>

text \<open>
  C3. The transcript is built in exactly one of two ways, selected by \<open>withFixes\<close>.
  Without the flag the generator the caller's handle owns after the call descends from a
  new default SHA-256 generator that was fed \<open>{u}\<close> only, and nothing of the caller's
  generator remains; with the flag it is the caller's own generator, fed the bytes of
  the label \<open>SCHNORR_PROOF\<close> and then \<open>{u, y, a, b}\<close>. In both modes the challenge is
  drawn from that generator.
\<close>

theorem verify_transcript_by_mode:
  "bytes_of_string ''SCHNORR_PROOF'' =
     [83, 67, 72, 78, 79, 82, 82, 95, 80, 82, 79, 79, 70] \<and>
   verify_challenge L this y a b prf cg =
     (if withFixes this
      then ChallengeGenerator_get_challenge L
             (ChallengeGenerator_add_elements L [u prf, y, a, b]
                (ChallengeGenerator_add_bytes L (bytes_of_string ''SCHNORR_PROOF'') cg))
      else ChallengeGenerator_get_challenge L
             (ChallengeGenerator_add_elements L [u prf] (ChallengeGeneratorSha256_new L))) \<and>
   snd (verify L this y a b prf cg) =
     (if withFixes this
      then snd (ChallengeGenerator_get_challenge L
                  (ChallengeGenerator_add_elements L [u prf, y, a, b]
                     (ChallengeGenerator_add_bytes L (bytes_of_string ''SCHNORR_PROOF'') cg)))
      else snd (ChallengeGenerator_get_challenge L
                  (ChallengeGenerator_add_elements L [u prf]
                     (ChallengeGeneratorSha256_new L))))"
  by (simp add: verify_unfold verify_challenge_unfold label_bytes)

text \<open>
  The witness: a caller's generator that has already absorbed \<open>[9, 9]\<close>. In legacy mode
  the handle ends with the transcript \<open>[1, 5, 6]\<close> (one element, \<open>u = 5\<close>, and the
  challenge 6) and the \<open>[9, 9]\<close> is gone; in fixed mode it ends with \<open>[9, 9]\<close>, the
  thirteen bytes of the label, the four elements and the challenge 10.
\<close>

theorem verify_transcript_by_mode_witness:
  "snd (verify small_library (SchnorrVerifier_new 1 2 False) 3 4 5
          \<lparr>u = 5, P1 = 1, T1 = 4\<rparr> [9, 9]) = [1, 5, 6] \<and>
   snd (verify small_library (SchnorrVerifier_new 1 2 True) 3 4 5
          \<lparr>u = 5, P1 = 1, T1 = 4\<rparr> [9, 9]) =
     [9, 9, 83, 67, 72, 78, 79, 82, 82, 95, 80, 82, 79, 79, 70, 4, 5, 3, 4, 5, 10]"
  using
    verify_transcript_by_mode [of small_library "SchnorrVerifier_new 1 2 False" 3 4 5
      "\<lparr>u = 5, P1 = 1, T1 = 4\<rparr>" "[9, 9]"]
    verify_transcript_by_mode [of small_library "SchnorrVerifier_new 1 2 True" 3 4 5
      "\<lparr>u = 5, P1 = 1, T1 = 4\<rparr>" "[9, 9]"]
  by (simp add: small_simps small_hash_values SchnorrVerifier_new_def)

text \<open>
  C9. Without \<open>withFixes\<close> the challenge depends on \<open>proof.u\<close> only: two calls with the
  same \<open>u\<close> derive the same challenge, whatever their \<open>y\<close>, \<open>a\<close>, \<open>b\<close>, the rest of the
  proof, the verifier's generators and the caller's generator are.
\<close>

theorem legacy_challenge_depends_on_u_only:
  assumes "\<not> withFixes this" and "\<not> withFixes this'" and "u prf = u prf'"
  shows "fst (verify_challenge L this y a b prf cg) =
         fst (verify_challenge L this' y' a' b' prf' cg')"
  using assms by (simp add: verify_challenge_unfold)

text \<open>
  The witness: two legacy calls on the small library that share \<open>u = 5\<close> and nothing
  else; both derive the challenge 6.
\<close>

theorem legacy_challenge_depends_on_u_only_witness:
  "fst (verify_challenge small_library (SchnorrVerifier_new 1 2 False) 3 4 5
          \<lparr>u = 5, P1 = 1, T1 = 4\<rparr> []) =
   fst (verify_challenge small_library (SchnorrVerifier_new 7 8 False) 6 9 10
          \<lparr>u = 5, P1 = 2, T1 = 3\<rparr> [9, 9]) \<and>
   fst (verify_challenge small_library (SchnorrVerifier_new 1 2 False) 3 4 5
          \<lparr>u = 5, P1 = 1, T1 = 4\<rparr> []) = 6"
  using legacy_challenge_depends_on_u_only [of "SchnorrVerifier_new 1 2 False"
      "SchnorrVerifier_new 7 8 False" "\<lparr>u = 5, P1 = 1, T1 = 4\<rparr>"
      "\<lparr>u = 5, P1 = 2, T1 = 3\<rparr>" small_library 3 4 5 "[]" 6 9 10 "[9, 9]"]
  by (simp add: small_legacy small_hash_values SchnorrVerifier_new_def)

text \<open>
  C6. The two modes derive different challenges and are not extensionally equal. The
  fixture is on the small library, with generators 1 and 2, the statement \<open>y = 3\<close>,
  \<open>a = 4\<close>, \<open>b = 5\<close>, \<open>u = 5\<close> and, in both modes, a caller's generator that is a new
  default one. The challenge is 8 in fixed mode and 6 in legacy mode; the proof
  \<open>(5, 1, 1)\<close> is accepted in fixed mode and rejected in legacy mode, and the proof
  \<open>(5, 1, 4)\<close> is accepted in legacy mode and rejected in fixed mode.
\<close>

theorem verify_modes_diverge:
  "fst (verify_challenge small_library (SchnorrVerifier_new 1 2 True) 3 4 5
          \<lparr>u = 5, P1 = 1, T1 = 1\<rparr> (ChallengeGeneratorSha256_new small_library)) = 8 \<and>
   fst (verify_challenge small_library (SchnorrVerifier_new 1 2 False) 3 4 5
          \<lparr>u = 5, P1 = 1, T1 = 1\<rparr> (ChallengeGeneratorSha256_new small_library)) = 6 \<and>
   fst (verify small_library (SchnorrVerifier_new 1 2 True) 3 4 5
          \<lparr>u = 5, P1 = 1, T1 = 1\<rparr> (ChallengeGeneratorSha256_new small_library)) = True \<and>
   fst (verify small_library (SchnorrVerifier_new 1 2 False) 3 4 5
          \<lparr>u = 5, P1 = 1, T1 = 1\<rparr> (ChallengeGeneratorSha256_new small_library)) = False \<and>
   fst (verify small_library (SchnorrVerifier_new 1 2 False) 3 4 5
          \<lparr>u = 5, P1 = 1, T1 = 4\<rparr> (ChallengeGeneratorSha256_new small_library)) = True \<and>
   fst (verify small_library (SchnorrVerifier_new 1 2 True) 3 4 5
          \<lparr>u = 5, P1 = 1, T1 = 4\<rparr> (ChallengeGeneratorSha256_new small_library)) = False"
  by (simp add: small_run)

text \<open>Hence the verifier with the flag and the one without are different functions.\<close>

theorem verify_modes_diverge_witness:
  "verify small_library (SchnorrVerifier_new 1 2 True) \<noteq>
   verify small_library (SchnorrVerifier_new 1 2 False)"
proof
  assume "verify small_library (SchnorrVerifier_new 1 2 True) =
          verify small_library (SchnorrVerifier_new 1 2 False)"
  then have "fst (verify small_library (SchnorrVerifier_new 1 2 True) 3 4 5
                    \<lparr>u = 5, P1 = 1, T1 = 1\<rparr> (ChallengeGeneratorSha256_new small_library)) =
             fst (verify small_library (SchnorrVerifier_new 1 2 False) 3 4 5
                    \<lparr>u = 5, P1 = 1, T1 = 1\<rparr> (ChallengeGeneratorSha256_new small_library))"
    by simp
  with verify_modes_diverge show False by metis
qed

subsection \<open>Invalid input, exceptions and the empty handle\<close>










subsection \<open>The generator is used before the gate\<close>

text \<open>
  C10. The transcript is built and the challenge drawn before the validity gate is
  applied: when the gate rejects, the call returns false and the caller's handle owns
  the generator that lines 19 to 31 produce, that is, a new default generator fed \<open>{u}\<close>
  (without \<open>withFixes\<close>) or the caller's generator fed the label and \<open>{u, y, a, b}\<close> (with
  it), in both cases after a challenge has been drawn from it.
\<close>

theorem verify_rejecting_call_updates_generator:
  assumes "\<not> (GroupElement_isMember L (u prf) \<and> GroupElement_isMember L y \<and>
              Scalar_isMember L (P1 prf) \<and> Scalar_isMember L (T1 prf)) \<or>
           GroupElement_isInfinity L (u prf) \<or> GroupElement_isInfinity L y \<or>
           Scalar_isZero L (P1 prf) \<or> Scalar_isZero L (T1 prf)"
  shows "verify L this y a b prf cg =
           (False,
            snd (ChallengeGenerator_get_challenge L
                   (if withFixes this
                    then ChallengeGenerator_add_elements L [u prf, y, a, b]
                           (ChallengeGenerator_add_bytes L
                              (bytes_of_string ''SCHNORR_PROOF'') cg)
                    else ChallengeGenerator_add_elements L [u prf]
                           (ChallengeGeneratorSha256_new L))))"
  using assms unfolding verify_unfold verify_challenge_unfold by auto

text \<open>
  The witness: a statement whose \<open>y\<close> is the identity, with a caller's generator that
  has absorbed \<open>[9, 9]\<close>. Both calls return false, and in both the generator the handle
  owns afterwards differs from the one passed in: the rejecting call does not preserve
  the state of the handle.
\<close>

theorem verify_rejecting_call_updates_generator_witness:
  "verify small_library (SchnorrVerifier_new 1 2 False) 0 4 5
     \<lparr>u = 5, P1 = 1, T1 = 4\<rparr> [9, 9] = (False, [1, 5, 6]) \<and>
   [1, 5, 6] \<noteq> [9, 9 :: int] \<and>
   verify small_library (SchnorrVerifier_new 1 2 True) 0 4 5
     \<lparr>u = 5, P1 = 1, T1 = 4\<rparr> [9, 9] =
     (False, [9, 9, 83, 67, 72, 78, 79, 82, 82, 95, 80, 82, 79, 79, 70, 4, 5, 0, 4, 5, 6]) \<and>
   [9, 9, 83, 67, 72, 78, 79, 82, 82, 95, 80, 82, 79, 79, 70, 4, 5, 0, 4, 5, 6] \<noteq> [9, 9 :: int]"
proof -
  have h: "small_hash [9, 9, 83, 67, 72, 78, 79, 82, 82, 95, 80, 82, 79, 79, 70, 4, 5, 0, 4, 5] = 6"
    by (simp add: small_hash_def)
  show ?thesis
    using
      verify_rejecting_call_updates_generator [of small_library "\<lparr>u = 5, P1 = 1, T1 = 4\<rparr>" 0
        "SchnorrVerifier_new 1 2 False" 4 5 "[9, 9]"]
      verify_rejecting_call_updates_generator [of small_library "\<lparr>u = 5, P1 = 1, T1 = 4\<rparr>" 0
        "SchnorrVerifier_new 1 2 True" 4 5 "[9, 9]"]
    by (simp add: small_simps small_hash_values h label_bytes SchnorrVerifier_new_def)
qed

section \<open>Properties of the linking-tag operations\<close>

subsection \<open>What the bulk operations do to the mempool map\<close>

lemma mempool_adds_LTags:
  "mempoolLTags (foldl (\<lambda>mp lTag. snd (Mempool_AddSpendToMempool mp lTag txHash)) mp lTags) =
     (\<lambda>lTag. if lTag \<in> set lTags \<and> mempoolLTags mp lTag = None then Some txHash
             else mempoolLTags mp lTag)"
proof (induction lTags arbitrary: mp)
  case Nil
  then show ?case by simp
next
  case (Cons x xs)
  show ?case
    unfolding foldl_Cons Cons.IH
    by (auto simp: Mempool_AddSpendToMempool_def HasLTag_def fun_eq_iff)
qed

lemma mempool_adds_Mints:
  "mempoolMints (foldl (\<lambda>mp lTag. snd (Mempool_AddSpendToMempool mp lTag txHash)) mp lTags) =
     mempoolMints mp"
  by (induction lTags arbitrary: mp) (simp_all add: Mempool_AddSpendToMempool_def)


lemma AddSpendToMempool_eq:
  "AddSpendToMempool st lTags txHash =
     (if \<exists>lTag \<in> set lTags. usedLTags st lTag \<noteq> None \<or> mempoolLTags (mempool st) lTag \<noteq> None
      then (False, st)
      else (True,
            st\<lparr>mempool := (mempool st)\<lparr>mempoolLTags :=
                   (\<lambda>lTag. if lTag \<in> set lTags then Some txHash
                           else mempoolLTags (mempool st) lTag)\<rparr>\<rparr>))"
proof (cases "list_all (CanAddSpendToMempool st) lTags")
  case False
  then show ?thesis
    by (auto simp: AddSpendToMempool_def list_all_iff CanAddSpendToMempool_def
        IsUsedLTag_def HasLTag_def)
next
  case True
  then have fresh: "\<forall>lTag \<in> set lTags. usedLTags st lTag = None \<and> mempoolLTags (mempool st) lTag = None"
    by (auto simp: list_all_iff CanAddSpendToMempool_def IsUsedLTag_def HasLTag_def)
  have "foldl (\<lambda>mp lTag. snd (Mempool_AddSpendToMempool mp lTag txHash)) (mempool st) lTags =
          (mempool st)\<lparr>mempoolLTags :=
                   (\<lambda>lTag. if lTag \<in> set lTags then Some txHash
                           else mempoolLTags (mempool st) lTag)\<rparr>"
    using fresh
    by (intro CSparkMempoolState.equality) (auto simp: mempool_adds_LTags mempool_adds_Mints fun_eq_iff)
  with True fresh show ?thesis
    by (auto simp: AddSpendToMempool_def)
qed







subsection \<open>Admission of a multi-spend transaction\<close>

text \<open>
  C5. \<open>AddSpendToMempool(lTags, txHash)\<close> is all-or-nothing. A tag fails
  \<open>CanAddSpendToMempool\<close> exactly when it is a key of \<open>usedLTags\<close> or of the mempool map.
  If some tag of the list fails, the call returns false and the state, so the mempool
  map, is unchanged; otherwise the call returns true and the mempool map maps every tag
  of the list to \<open>txHash\<close> and is unchanged elsewhere, as is the rest of the state.
\<close>

theorem AddSpendToMempool_all_or_nothing:
  "CanAddSpendToMempool st lTag =
     (usedLTags st lTag = None \<and> mempoolLTags (mempool st) lTag = None) \<and>
   AddSpendToMempool st lTags txHash =
     (if \<exists>lTag \<in> set lTags. \<not> CanAddSpendToMempool st lTag
      then (False, st)
      else (True,
            st\<lparr>mempool := (mempool st)\<lparr>mempoolLTags :=
                   (\<lambda>lTag. if lTag \<in> set lTags then Some txHash
                           else mempoolLTags (mempool st) lTag)\<rparr>\<rparr>))"
  by (simp add: AddSpendToMempool_eq CanAddSpendToMempool_def IsUsedLTag_def HasLTag_def)

text \<open>
  The witness is the scenario of the spec: tag 2 is already spent, tag 1 is new. Adding
  \<open>[1, 2]\<close> returns false and neither tag is in the mempool map afterwards; adding
  \<open>[1, 3]\<close> returns true and both tags are in the map with the transaction's hash.
\<close>

theorem AddSpendToMempool_all_or_nothing_witness:
  "AddSpendToMempool (AddSpend (CSparkState_new 0 0 :: (nat, nat, nat) CSparkState) 2 1) [1, 2] 7 =
     (False, AddSpend (CSparkState_new 0 0) 2 1) \<and>
   mempoolLTags (mempool (snd (AddSpendToMempool
     (AddSpend (CSparkState_new 0 0 :: (nat, nat, nat) CSparkState) 2 1) [1, 2] 7))) 1 = None \<and>
   mempoolLTags (mempool (snd (AddSpendToMempool
     (AddSpend (CSparkState_new 0 0 :: (nat, nat, nat) CSparkState) 2 1) [1, 2] 7))) 2 = None \<and>
   fst (AddSpendToMempool
     (AddSpend (CSparkState_new 0 0 :: (nat, nat, nat) CSparkState) 2 1) [1, 3] 7) = True \<and>
   mempoolLTags (mempool (snd (AddSpendToMempool
     (AddSpend (CSparkState_new 0 0 :: (nat, nat, nat) CSparkState) 2 1) [1, 3] 7))) 1 = Some 7 \<and>
   mempoolLTags (mempool (snd (AddSpendToMempool
     (AddSpend (CSparkState_new 0 0 :: (nat, nat, nat) CSparkState) 2 1) [1, 3] 7))) 3 = Some 7"
  using
    AddSpendToMempool_all_or_nothing
      [of "AddSpend (CSparkState_new 0 0 :: (nat, nat, nat) CSparkState) 2 1" _ "[1, 2]" 7]
    AddSpendToMempool_all_or_nothing
      [of "AddSpend (CSparkState_new 0 0 :: (nat, nat, nat) CSparkState) 2 1" _ "[1, 3]" 7]
  by (simp add: AddSpend_def AddSpend_with_def unordered_map_insert_def
      Mempool_RemoveSpendFromMempool_def IsUsedLTag_def CSparkState_new_def)

subsection \<open>No linking tag in both layers\<close>



section \<open>Properties of the serialization of the mint metadata\<close>

subsection \<open>One member at a time\<close>

lemma READWRITE_Serialize:
  "READWRITE ser unser member set_member CSerActionSerialize (s, obj) =
     Some (s @ ser (member obj), obj)"
  by (simp add: READWRITE_def)

lemma READWRITE_Unserialize:
  "reads_back ser unser x \<Longrightarrow>
   READWRITE ser unser member set_member CSerActionUnserialize (ser x @ rest, obj) =
     Some (rest, set_member x obj)"
  by (simp add: READWRITE_def reads_back_def)

subsection \<open>The small instance reads back what it writes\<close>

lemma length_le_bytes: "length (le_bytes n x) = n"
  by (induction n arbitrary: x) simp_all

lemma le_value_le_bytes: "le_value (le_bytes n x) = x mod 256 ^ n"
proof (induction n arbitrary: x)
  case 0
  then show ?case by simp
next
  case (Suc n)
  have "unat (of_nat (x mod 256) :: byte) = x mod 256"
    by (simp add: unat_of_nat)
  then have "le_value (le_bytes (Suc n) x) = x mod 256 + 256 * (x div 256 mod 256 ^ n)"
    by (simp add: Suc.IH)
  also have "\<dots> = x mod (256 * 256 ^ n)"
    by (simp add: mod_mult2_eq)
  finally show ?case by simp
qed

lemma reads_back_word:
  fixes w :: "'a::len word"
  assumes "LENGTH('a) \<le> 8 * n"
  shows "reads_back (put_word n) (get_word n) w"
proof -
  have "unat w < 2 ^ LENGTH('a)"
    by simp
  also have "(2::nat) ^ LENGTH('a) \<le> 2 ^ (8 * n)"
    using assms by (simp add: power_increasing)
  also have "(2::nat) ^ (8 * n) = 256 ^ n"
    by (simp add: power_mult)
  finally have "unat w mod 256 ^ n = unat w"
    by simp
  then show ?thesis
    by (simp add: reads_back_def put_word_def get_word_def length_le_bytes le_value_le_bytes)
qed

lemma reads_back_bool: "reads_back put_bool get_bool flag"
  by (simp add: reads_back_def put_bool_def get_bool_def)

lemma reads_back_vector:
  assumes "length xs < 2 ^ 32"
  shows "reads_back put_vector get_vector xs"
proof -
  have n: "unat (of_nat (length xs) :: 32 word) = length xs"
    using assms by (simp add: unat_of_nat)
  have "get_word 4 (put_word 4 (of_nat (length xs) :: 32 word) @ xs @ rest) =
          Some (of_nat (length xs) :: 32 word, xs @ rest)" for rest
    using reads_back_word [of 4 "of_nat (length xs) :: 32 word"]
    by (simp add: reads_back_def)
  then show ?thesis
    by (simp add: reads_back_def put_vector_def get_vector_def n)
qed

lemma chars_of_bytes: "map (\<lambda>x. char_of (unat x)) (bytes_of_string str) = str"
proof -
  have "char_of (unat (of_nat (of_char ch) :: byte)) = ch" for ch :: char
  proof -
    have "(of_char ch :: nat) < 256"
      by simp
    then have "unat (of_nat (of_char ch) :: byte) = of_char ch"
      by (simp add: unat_of_nat)
    then show ?thesis by simp
  qed
  then show ?thesis
    by (simp add: bytes_of_string_def comp_def)
qed

lemma reads_back_string:
  assumes "length str < 2 ^ 32"
  shows "reads_back put_string get_string str"
proof -
  have "length (bytes_of_string str) < 2 ^ 32"
    using assms by (simp add: bytes_of_string_def)
  then have "reads_back put_vector get_vector (bytes_of_string str)"
    by (rule reads_back_vector)
  then show ?thesis
    by (simp add: reads_back_def put_string_def get_string_def chars_of_bytes)
qed

subsection \<open>Field order and round trip\<close>

text \<open>
  C8. Serializing a \<open>CSparkMintMeta\<close> appends to the stream the bytes of exactly these
  members in exactly this order: \<open>nHeight\<close>, \<open>nId\<close>, \<open>isUsed\<close>, \<open>txid\<close>, \<open>i\<close>, \<open>d\<close>, \<open>v\<close>,
  \<open>k\<close>, \<open>memo\<close>, \<open>serial_context\<close>. Unserializing reads them in the same order: provided
  each member's value is read back by the functions of its type, unserializing those
  bytes into any object gives an object with all ten members restored (its cache
  \<open>nonceHash\<close>, which is not serialized, is the target object's), and consumes exactly
  those bytes.
\<close>

theorem SerializationOp_order_and_round_trip:
  "SerializationOp C CSerActionSerialize (s, m) =
     Some (s @ Serialize_int C (nHeight m) @ Serialize_int C (nId m) @
            Serialize_bool C (isUsed m) @ Serialize_uint256 C (txid m) @
            Serialize_uint64 C (i m) @ Serialize_vector C (d m) @
            Serialize_uint64 C (v m) @ Serialize_Scalar C (k m) @
            Serialize_string C (memo m) @ Serialize_vector C (serial_context m), m) \<and>
   (members_read_back C m \<longrightarrow>
      SerializationOp C CSerActionUnserialize
        (Serialize_int C (nHeight m) @ Serialize_int C (nId m) @
            Serialize_bool C (isUsed m) @ Serialize_uint256 C (txid m) @
            Serialize_uint64 C (i m) @ Serialize_vector C (d m) @
            Serialize_uint64 C (v m) @ Serialize_Scalar C (k m) @
            Serialize_string C (memo m) @ Serialize_vector C (serial_context m) @ rest, m0) =
        Some (rest, m\<lparr>nonceHash := nonceHash m0\<rparr>) \<and>
      (SerializationOp C CSerActionSerialize ([], m) \<bind>
         (\<lambda>(bytes, _). SerializationOp C CSerActionUnserialize (bytes, m0))) =
        Some ([], m\<lparr>nonceHash := nonceHash m0\<rparr>))"
proof -
  have ser_bytes: "SerializationOp C CSerActionSerialize (s', m) =
           Some (s' @ Serialize_int C (nHeight m) @ Serialize_int C (nId m) @
            Serialize_bool C (isUsed m) @ Serialize_uint256 C (txid m) @
            Serialize_uint64 C (i m) @ Serialize_vector C (d m) @
            Serialize_uint64 C (v m) @ Serialize_Scalar C (k m) @
            Serialize_string C (memo m) @ Serialize_vector C (serial_context m), m)" for s'
    by (simp add: SerializationOp_def READWRITE_Serialize)
  have unser_bytes: "SerializationOp C CSerActionUnserialize
           (Serialize_int C (nHeight m) @ Serialize_int C (nId m) @
            Serialize_bool C (isUsed m) @ Serialize_uint256 C (txid m) @
            Serialize_uint64 C (i m) @ Serialize_vector C (d m) @
            Serialize_uint64 C (v m) @ Serialize_Scalar C (k m) @
            Serialize_string C (memo m) @ Serialize_vector C (serial_context m) @ rest', m0) =
           Some (rest', m\<lparr>nonceHash := nonceHash m0\<rparr>)" if "members_read_back C m" for rest'
    using that unfolding members_read_back_def
    by (cases m, cases m0) (simp add: SerializationOp_def READWRITE_Unserialize)
  from ser_bytes [of s] unser_bytes [of rest] ser_bytes [of "[]"] unser_bytes [of "[]"] show ?thesis
    by simp
qed

text \<open>
  The witness: the small instance writes a concrete object as the 109 bytes below (four
  for each \<open>int\<close>, one for the flag, 32 for the \<open>txid\<close>, eight for \<open>i\<close>, a length and three
  bytes for \<open>d\<close>, eight for \<open>v\<close>, 32 for the scalar, a length and four characters for the
  memo, a length and one byte for the serial context), and reading them into another
  object restores the ten members and keeps that object's \<open>nonceHash\<close>.
\<close>

theorem SerializationOp_order_and_round_trip_witness:
  "SerializationOp small_serializers CSerActionSerialize ([],
       \<lparr>nHeight = 100, nId = 1, isUsed = True, txid = 7, i = 2, d = [1, 2, 3], v = 5000,
        k = 77, memo = ''memo'', serial_context = [9], nonceHash = None\<rparr>) =
     Some ([100, 0, 0, 0, 1, 0, 0, 0, 1,
        7, 0, 0, 0, 0, 0, 0, 0, 0, 0, 0, 0, 0, 0, 0, 0, 0, 0, 0, 0, 0, 0, 0, 0, 0, 0, 0, 0, 0, 0, 0, 0,
        2, 0, 0, 0, 0, 0, 0, 0, 3, 0, 0, 0, 1, 2, 3, 136, 19, 0, 0, 0, 0, 0, 0,
        77, 0, 0, 0, 0, 0, 0, 0, 0, 0, 0, 0, 0, 0, 0, 0, 0, 0, 0, 0, 0, 0, 0, 0, 0, 0, 0, 0, 0, 0, 0, 0,
        4, 0, 0, 0, 109, 101, 109, 111, 1, 0, 0, 0, 9],
       \<lparr>nHeight = 100, nId = 1, isUsed = True, txid = 7, i = 2, d = [1, 2, 3], v = 5000,
        k = 77, memo = ''memo'', serial_context = [9], nonceHash = None\<rparr>) \<and>
   SerializationOp small_serializers CSerActionUnserialize ([100, 0, 0, 0, 1, 0, 0, 0, 1,
        7, 0, 0, 0, 0, 0, 0, 0, 0, 0, 0, 0, 0, 0, 0, 0, 0, 0, 0, 0, 0, 0, 0, 0, 0, 0, 0, 0, 0, 0, 0, 0,
        2, 0, 0, 0, 0, 0, 0, 0, 3, 0, 0, 0, 1, 2, 3, 136, 19, 0, 0, 0, 0, 0, 0,
        77, 0, 0, 0, 0, 0, 0, 0, 0, 0, 0, 0, 0, 0, 0, 0, 0, 0, 0, 0, 0, 0, 0, 0, 0, 0, 0, 0, 0, 0, 0, 0,
        4, 0, 0, 0, 109, 101, 109, 111, 1, 0, 0, 0, 9],
       \<lparr>nHeight = 0, nId = 0, isUsed = False, txid = 0, i = 0, d = [], v = 0,
        k = 0, memo = [], serial_context = [], nonceHash = Some 42\<rparr>) =
     Some ([],
       \<lparr>nHeight = 100, nId = 1, isUsed = True, txid = 7, i = 2, d = [1, 2, 3], v = 5000,
        k = 77, memo = ''memo'', serial_context = [9], nonceHash = None\<rparr>
       \<lparr>nonceHash := Some 42\<rparr>)"
proof -
  define m :: "256 word CSparkMintMeta" where
    "m = \<lparr>nHeight = 100, nId = 1, isUsed = True, txid = 7, i = 2, d = [1, 2, 3], v = 5000,
        k = 77, memo = ''memo'', serial_context = [9], nonceHash = None\<rparr>"
  define m0 :: "256 word CSparkMintMeta" where
    "m0 = \<lparr>nHeight = 0, nId = 0, isUsed = False, txid = 0, i = 0, d = [], v = 0,
        k = 0, memo = [], serial_context = [], nonceHash = Some 42\<rparr>"
  have ser_bytes: "SerializationOp small_serializers CSerActionSerialize ([], m) =
     Some ([100, 0, 0, 0, 1, 0, 0, 0, 1,
        7, 0, 0, 0, 0, 0, 0, 0, 0, 0, 0, 0, 0, 0, 0, 0, 0, 0, 0, 0, 0, 0, 0, 0, 0, 0, 0, 0, 0, 0, 0, 0,
        2, 0, 0, 0, 0, 0, 0, 0, 3, 0, 0, 0, 1, 2, 3, 136, 19, 0, 0, 0, 0, 0, 0,
        77, 0, 0, 0, 0, 0, 0, 0, 0, 0, 0, 0, 0, 0, 0, 0, 0, 0, 0, 0, 0, 0, 0, 0, 0, 0, 0, 0, 0, 0, 0, 0,
        4, 0, 0, 0, 109, 101, 109, 111, 1, 0, 0, 0, 9], m)"
    unfolding m_def by code_simp
  have "members_read_back small_serializers m"
    unfolding members_read_back_def
    by (simp add: small_serializers_def reads_back_word reads_back_bool reads_back_vector
        reads_back_string m_def)
  with SerializationOp_order_and_round_trip [of small_serializers "[]" m "[]" m0]
  have "(SerializationOp small_serializers CSerActionSerialize ([], m) \<bind>
            (\<lambda>(bytes, _). SerializationOp small_serializers CSerActionUnserialize (bytes, m0))) =
           Some ([], m\<lparr>nonceHash := nonceHash m0\<rparr>)"
    by blast
  then have "SerializationOp small_serializers CSerActionUnserialize ([100, 0, 0, 0, 1, 0, 0, 0, 1,
        7, 0, 0, 0, 0, 0, 0, 0, 0, 0, 0, 0, 0, 0, 0, 0, 0, 0, 0, 0, 0, 0, 0, 0, 0, 0, 0, 0, 0, 0, 0, 0,
        2, 0, 0, 0, 0, 0, 0, 0, 3, 0, 0, 0, 1, 2, 3, 136, 19, 0, 0, 0, 0, 0, 0,
        77, 0, 0, 0, 0, 0, 0, 0, 0, 0, 0, 0, 0, 0, 0, 0, 0, 0, 0, 0, 0, 0, 0, 0, 0, 0, 0, 0, 0, 0, 0, 0,
        4, 0, 0, 0, 109, 101, 109, 111, 1, 0, 0, 0, 9], m0) =
      Some ([], m\<lparr>nonceHash := nonceHash m0\<rparr>)"
    by (simp add: ser_bytes)
  moreover have "nonceHash m0 = Some 42"
    by (simp add: m0_def)
  ultimately show ?thesis
    using ser_bytes unfolding m_def m0_def by simp
qed

end
